theory Spec2Isabelle
  imports Complex_Main
begin

section \<open>Python values of the IPX800 V3 integration\<close>

text \<open>
  Strings are Python \<open>str\<close> values; a \<open>char\<close> stands for a code point below 256.
  Every \<open>raise\<close> of the source is a value \<open>Inl e\<close> of a sum type, every log call is a
  record appended to the log.
\<close>

datatype py_error =
    IndexError
  | ValueError
  | KeyError string
  | TypeError
  | BinasciiError
  | UnicodeDecodeError
  | OverflowError
  | NotImplementedError
  | InvalidStateError
  | ConfigEntryNotReady
  | Ipx800v3CannotConnectError
  | Ipx800v3InvalidAuthError
  | Ipx800v3RequestError
  | OtherException string

datatype level = DEBUG | INFO | WARNING | ERROR

type_synonym log_record = "level \<times> string \<times> string list"

text \<open>\<open>str.isspace\<close> on one code point below 256: the characters \<open>str.strip()\<close> removes.\<close>

definition isspace :: "char \<Rightarrow> bool" where
  "isspace c = (let n = (of_char c :: nat) in
     (9 \<le> n \<and> n \<le> 13) \<or> (28 \<le> n \<and> n \<le> 32) \<or> n = 133 \<or> n = 160)"

definition strip :: "string \<Rightarrow> string" where
  "strip s = rev (dropWhile isspace (rev (dropWhile isspace s)))"

text \<open>\<open>str.lower\<close> on code points below 256: A-Z and the Latin-1 capitals move by 32.\<close>

definition lower_char :: "char \<Rightarrow> char" where
  "lower_char c = (let n = (of_char c :: nat) in
     if (65 \<le> n \<and> n \<le> 90) \<or> (192 \<le> n \<and> n \<le> 222 \<and> n \<noteq> 215)
     then char_of (n + 32) else c)"

definition lower :: "string \<Rightarrow> string" where
  "lower s = map lower_char s"

text \<open>\<open>s.split(sep)\<close> for a separator of one character: never an empty list.\<close>

fun split_acc :: "char \<Rightarrow> string \<Rightarrow> string \<Rightarrow> string list" where
  "split_acc sep cur [] = [cur]"
| "split_acc sep cur (c # cs) =
     (if c = sep then cur # split_acc sep [] cs else split_acc sep (cur @ [c]) cs)"

definition split_sep :: "char \<Rightarrow> string \<Rightarrow> string list" where
  "split_sep sep s = split_acc sep [] s"

text \<open>\<open>s.split(sep, 1)\<close>: cut at the first separator only.\<close>

definition split_once :: "char \<Rightarrow> string \<Rightarrow> string list" where
  "split_once sep s =
     (case dropWhile (\<lambda>c. c \<noteq> sep) s of
        [] \<Rightarrow> [s]
      | _ # rest \<Rightarrow> [takeWhile (\<lambda>c. c \<noteq> sep) s, rest])"

text \<open>\<open>xs[i]\<close> for a non-negative index: IndexError out of range.\<close>

definition py_index :: "'a list \<Rightarrow> nat \<Rightarrow> py_error + 'a" where
  "py_index xs i = (if i < length xs then Inr (xs ! i) else Inl IndexError)"

section \<open>Constants (const.py)\<close>

definition PUSH_USERNAME :: string where
  "PUSH_USERNAME = ''ipx800''"


definition TYPE_RELAY :: string where
  "TYPE_RELAY = ''relay''"

definition TYPE_DIGITALIN :: string where
  "TYPE_DIGITALIN = ''digitalin''"

definition CONF_COMPONENT_ALLOWED :: "string list" where
  "CONF_COMPONENT_ALLOWED = [''light'', ''switch'', ''binary_sensor'']"

definition CONF_TYPE_ALLOWED :: "string list" where
  "CONF_TYPE_ALLOWED = [TYPE_RELAY, TYPE_DIGITALIN]"

definition PLATFORMS :: "string list" where
  "PLATFORMS = [''binary_sensor'', ''light'', ''switch'']"

section \<open>Push endpoints (__init__.py)\<close>

text \<open>
  The request, as far as \<open>check_api_auth\<close> reads it: what \<open>request.headers\<close> holds under
  the key \<open>Authorization\<close>, \<open>None\<close> when the key is not in the headers.
\<close>

record request =
  authorization :: "string option"

text \<open>
  \<open>b64decode(token).decode()\<close> is the standard library's, so it is a parameter: the decoded
  text, or the exception the library raises on a token it refuses.
\<close>

type_synonym decoder = "string \<Rightarrow> py_error + string"

definition check_api_auth ::
  "decoder \<Rightarrow> request \<Rightarrow> string \<Rightarrow> string \<Rightarrow> (py_error + bool) \<times> log_record list" where
  "check_api_auth b64decode request host password =
     (case authorization request of
        None \<Rightarrow> (Inr False, [(WARNING, ''API call no authentication provided'', [])])
      | Some header_auth \<Rightarrow>
          (let split = split_sep CHR '' '' (strip header_auth) in
           if length split \<noteq> 2 \<or> lower (strip (split ! 0)) \<noteq> ''basic''
           then (Inr False, [(WARNING, ''Malformed Authorization header'', [])])
           else
             (case b64decode (split ! 1) of
                Inl e \<Rightarrow> (Inl e, [])
              | Inr decoded \<Rightarrow>
                  (case split_once CHR '':'' decoded of
                     [header_username, header_password] \<Rightarrow>
                       if header_username \<noteq> PUSH_USERNAME \<or> header_password \<noteq> password
                       then (Inr False, [(WARNING, ''API call authentication invalid'', [])])
                       else (Inr True, [])
                   | _ \<Rightarrow> (Inl ValueError, [])))))"

text \<open>
  The host's state machine (\<open>hass.states\<close>), as the views call it. It keeps every entity
  under its id in lower case: \<open>get\<close> and \<open>async_set\<close> fold the id they are given, and
  \<open>states\<close> is what is stored under each folded id. \<open>async_set\<close> refuses a state of more
  than 255 characters with \<open>InvalidStateError\<close>. With the state machine go the log and the
  number of calls of \<open>coordinator.async_request_refresh\<close>.
\<close>

datatype 'a State = State (state: string) (attributes: 'a)

record 'a hass =
  states :: "string \<Rightarrow> 'a State option"
  logged :: "log_record list"
  refresh_requests :: nat

definition MAX_LENGTH_STATE_STATE :: nat where
  "MAX_LENGTH_STATE_STATE = 255"

definition states_get :: "'a hass \<Rightarrow> string \<Rightarrow> 'a State option" where
  "states_get h entity_id = states h (lower entity_id)"

definition async_set :: "string \<Rightarrow> string \<Rightarrow> 'a \<Rightarrow> 'a hass \<Rightarrow> py_error + 'a hass" where
  "async_set entity_id new_state attrs h =
     (if length new_state > MAX_LENGTH_STATE_STATE then Inl InvalidStateError
      else Inr (h\<lparr>states := (states h)(lower entity_id \<mapsto> State new_state attrs)\<rparr>))"

datatype response = Response nat string

definition HTTP_OK :: nat where
  "HTTP_OK = 200"

definition HTTP_UNAUTHORIZED :: nat where
  "HTTP_UNAUTHORIZED = 401"

definition emit :: "log_record list \<Rightarrow> 'a hass \<Rightarrow> 'a hass" where
  "emit records h = h\<lparr>logged := logged h @ records\<rparr>"

text \<open>
  \<open>IpxRequestView.get\<close>. The method ends after the warning of a miss, so it returns Python's
  \<open>None\<close> there: the result is a \<open>response option\<close>.
\<close>

definition IpxRequestView_get ::
  "decoder \<Rightarrow> string \<Rightarrow> string \<Rightarrow> request \<Rightarrow> string \<Rightarrow> string \<Rightarrow> 'a hass
     \<Rightarrow> (py_error + response option) \<times> 'a hass" where
  "IpxRequestView_get b64decode host password request entity_id new_state h =
     (case check_api_auth b64decode request host password of
        (Inl e, records) \<Rightarrow> (Inl e, emit records h)
      | (Inr False, records) \<Rightarrow>
          (Inr (Some (Response HTTP_UNAUTHORIZED ''Unauthorized'')), emit records h)
      | (Inr True, records) \<Rightarrow>
          (let h1 = emit (records @ [(DEBUG, ''Update %s to state %s'', [entity_id, new_state])]) h
           in case states_get h1 entity_id of
                Some old_state \<Rightarrow>
                  (case async_set entity_id new_state (attributes old_state) h1 of
                     Inl e \<Rightarrow> (Inl e, h1)
                   | Inr h2 \<Rightarrow> (Inr (Some (Response HTTP_OK ''OK'')), h2))
              | None \<Rightarrow>
                  (Inr None,
                   emit [(WARNING, ''Entity not found for state updating: %s'', [entity_id])] h1)))"

text \<open>
  What the host's view wrapper answers for the result of a view method: a response as it
  is, \<open>None\<close> as 200 with an empty body; an exception stays an exception.
\<close>

definition request_handler :: "py_error + response option \<Rightarrow> py_error + response" where
  "request_handler result =
     (case result of
        Inl e \<Rightarrow> Inl e
      | Inr None \<Rightarrow> Inr (Response HTTP_OK [])
      | Inr (Some r) \<Rightarrow> Inr r)"

text \<open>
  The body of the loop of \<open>IpxRequestDataView.get\<close> for one piece of
  \<open>data.split("&")\<close>, and the loop.
\<close>

definition update_entity :: "string \<Rightarrow> 'a hass \<Rightarrow> (py_error + unit) \<times> 'a hass" where
  "update_entity entity_data h =
     (case py_index (split_sep CHR ''='' entity_data) 0 of
        Inl e \<Rightarrow> (Inl e, h)
      | Inr entity_id \<Rightarrow>
          (case py_index (split_sep CHR ''='' entity_data) 1 of
             Inl e \<Rightarrow> (Inl e, h)
           | Inr v \<Rightarrow>
               (let new_state = (if v \<in> set [''1'', ''on'', ''true''] then ''on'' else ''off'');
                    h1 = emit [(DEBUG, ''Update %s to state %s'', [entity_id, new_state])] h
                in case states_get h1 entity_id of
                     Some old_state \<Rightarrow>
                       (case async_set entity_id new_state (attributes old_state) h1 of
                          Inl e \<Rightarrow> (Inl e, h1)
                        | Inr h2 \<Rightarrow> (Inr (), h2))
                   | None \<Rightarrow>
                       (Inr (),
                        emit [(WARNING, ''Entity not found for state updating: %s'',
                               [entity_id])] h1))))"

fun apply_entities :: "string list \<Rightarrow> 'a hass \<Rightarrow> (py_error + unit) \<times> 'a hass" where
  "apply_entities [] h = (Inr (), h)"
| "apply_entities (entity_data # rest) h =
     (case update_entity entity_data h of
        (Inl e, h1) \<Rightarrow> (Inl e, h1)
      | (Inr u, h1) \<Rightarrow> apply_entities rest h1)"

definition IpxRequestDataView_get ::
  "decoder \<Rightarrow> string \<Rightarrow> string \<Rightarrow> request \<Rightarrow> string \<Rightarrow> 'a hass
     \<Rightarrow> (py_error + response) \<times> 'a hass" where
  "IpxRequestDataView_get b64decode host password request data h =
     (case check_api_auth b64decode request host password of
        (Inl e, records) \<Rightarrow> (Inl e, emit records h)
      | (Inr False, records) \<Rightarrow>
          (Inr (Response HTTP_UNAUTHORIZED ''Unauthorized''), emit records h)
      | (Inr True, records) \<Rightarrow>
          (case apply_entities (split_sep CHR ''&'' data) (emit records h) of
             (Inl e, h1) \<Rightarrow> (Inl e, h1)
           | (Inr u, h1) \<Rightarrow> (Inr (Response HTTP_OK ''OK''), h1)))"

text \<open>
  \<open>IpxRequestRefreshView.get\<close>: the call of \<open>coordinator.async_request_refresh\<close> is counted;
  what the host's coordinator does with it is not part of the integration.
\<close>

definition IpxRequestRefreshView_get ::
  "decoder \<Rightarrow> string \<Rightarrow> string \<Rightarrow> request \<Rightarrow> string \<Rightarrow> 'a hass
     \<Rightarrow> (py_error + response) \<times> 'a hass" where
  "IpxRequestRefreshView_get b64decode host password request data h =
     (case check_api_auth b64decode request host password of
        (Inl e, records) \<Rightarrow> (Inl e, emit records h)
      | (Inr False, records) \<Rightarrow>
          (Inr (Response HTTP_UNAUTHORIZED ''Unauthorized''), emit records h)
      | (Inr True, records) \<Rightarrow>
          (Inr (Response HTTP_OK ''OK''),
           (emit records h)\<lparr>refresh_requests := Suc (refresh_requests h)\<rparr>))"

text \<open>
  The decoder at the two tokens of the examples below: the base64 text of
  \<open>ipx800:secret\<close> and of \<open>ipx800\<close>.
\<close>

definition sample_decoder :: decoder where
  "sample_decoder token =
     (if token = ''aXB4ODAwOnNlY3JldA=='' then Inr ''ipx800:secret''
      else if token = ''aXB4ODAw'' then Inr ''ipx800''
      else Inl BinasciiError)"

text \<open>
  What a piece \<open>entity_data\<close> of a batch names: \<open>entity_data.split("=")[0]\<close> and
  \<open>entity_data.split("=")[1]\<close>, the second read only where the piece holds an \<open>=\<close>.
\<close>

definition entity_key :: "string \<Rightarrow> string" where
  "entity_key entity_data = split_sep CHR ''='' entity_data ! 0"

definition entity_value :: "string \<Rightarrow> string" where
  "entity_value entity_data = split_sep CHR ''='' entity_data ! 1"

text \<open>
  The visible state of the entity stored under \<open>k\<close> once the pieces \<open>pieces\<close> are
  applied to a state machine that held \<open>old\<close> for it: the last piece whose key folds to
  \<open>k\<close> decides, the attributes stay.
\<close>

definition pushed :: "string list \<Rightarrow> string \<Rightarrow> 'a State \<Rightarrow> 'a State" where
  "pushed pieces k old =
     (case filter (\<lambda>entity_data. lower (entity_key entity_data) = k) pieces of
        [] \<Rightarrow> old
      | hit # hits \<Rightarrow>
          State (if entity_value (last (hit # hits)) \<in> set [''1'', ''on'', ''true'']
                 then ''on'' else ''off'')
                (attributes old))"

section \<open>Device catalogue (__init__.py, tools_entities.py)\<close>

text \<open>
  One entry of the device list. The schema requires name, unique id, component and type;
  the id is optional. The other optional keys are not read by the functions below.
\<close>

record ChannelConfig =
  conf_name :: string
  conf_unique_id :: string
  conf_component :: string
  conf_type :: string
  conf_id :: "nat option"

text \<open>The loop of \<open>build_device_list\<close>, with the list \<open>devices\<close> it appends to.\<close>

fun build_devices ::
  "ChannelConfig list \<Rightarrow> ChannelConfig list \<Rightarrow> log_record list
     \<Rightarrow> ChannelConfig list \<times> log_record list" where
  "build_devices [] devices lg = (devices, lg)"
| "build_devices (device_config # rest) devices lg =
     (let lg1 = lg @ [(DEBUG, ''Read device name: %s'', [conf_name device_config])] in
      if conf_component device_config \<notin> set CONF_COMPONENT_ALLOWED then
        build_devices rest devices
          (lg1 @ [(ERROR, ''Device %s skipped: %s %s not correct or supported'',
                   [conf_name device_config, ''component'', conf_component device_config])])
      else if conf_type device_config \<notin> set CONF_TYPE_ALLOWED then
        build_devices rest devices
          (lg1 @ [(ERROR, ''Device %s skipped: %s %s not correct or supported'',
                   [conf_name device_config, ''type'', conf_type device_config])])
      else
        build_devices rest (devices @ [device_config])
          (lg1 @ [(INFO, ''Device %s added (component: %s)'',
                   [conf_name device_config, conf_component device_config])]))"

definition build_device_list ::
  "ChannelConfig list \<Rightarrow> ChannelConfig list \<times> log_record list" where
  "build_device_list devices_config =
     build_devices devices_config [] [(DEBUG, ''Check and build devices configuration'', [])]"

definition filter_device_list :: "ChannelConfig list \<Rightarrow> string \<Rightarrow> ChannelConfig list" where
  "filter_device_list devices component = filter (\<lambda>d. conf_component d = component) devices"

definition filter_entities_by_platform ::
  "ChannelConfig list \<Rightarrow> string \<Rightarrow> ChannelConfig list" where
  "filter_entities_by_platform devices component =
     filter (\<lambda>d. conf_component d = component) devices"

text \<open>
  The loop over \<open>PLATFORMS\<close> in \<open>async_setup_entry\<close>: what is stored under
  \<open>hass.data[DOMAIN][entry_id][CONF_DEVICES]\<close>, one list per platform.
\<close>

definition load_platforms ::
  "ChannelConfig list \<Rightarrow> (string \<times> ChannelConfig list) list" where
  "load_platforms entities =
     map (\<lambda>platform. (platform, filter_entities_by_platform entities platform)) PLATFORMS"

text \<open>
  The platforms' \<open>async_setup_entry\<close>: the stored list of the platform is read (KeyError
  when the platform has none) and an entity is built for each entry of the platform's type.
  \<open>TYPE_ANALOGIN\<close> is imported by sensor.py and not defined in const.py: a parameter.
\<close>

definition platform_devices ::
  "(string \<times> ChannelConfig list) list \<Rightarrow> string \<Rightarrow> py_error + ChannelConfig list" where
  "platform_devices stored platform =
     (case map_of stored platform of
        None \<Rightarrow> Inl (KeyError platform)
      | Some devices \<Rightarrow> Inr devices)"




definition sensor_async_setup_entry ::
  "string \<Rightarrow> (string \<times> ChannelConfig list) list \<Rightarrow> py_error + ChannelConfig list" where
  "sensor_async_setup_entry TYPE_ANALOGIN stored =
     (case platform_devices stored ''sensor'' of
        Inl e \<Rightarrow> Inl e
      | Inr devices \<Rightarrow> Inr (filter (\<lambda>device. conf_type device = TYPE_ANALOGIN) devices))"

section \<open>Integration setup (__init__.py)\<close>






text \<open>
  What setup leaves behind: the records the integration logs, the coordinator, the snapshot
  of the first refresh (\<open>None\<close> when the fetch failed), the lists stored for the
  platforms, the entries each platform builds an entity for, and the views.
\<close>

type_synonym snapshot = "string \<Rightarrow> int option"











section \<open>Relay entities (switch.py, light.py)\<close>

text \<open>
  The device behind \<open>Output(ipx, id)\<close> is the library's: a write either returns or raises,
  and leaves the device in some state. What the entity does is recorded as events: the
  write it issues, the refresh it requests from the coordinator, the error it logs.
  \<open>coordinator_data\<close> is \<open>coordinator.data\<close>, the snapshot of the last fetch (\<open>None\<close> before one).
\<close>

datatype relay_op = OutputOn | OutputOff | OutputToggle

datatype relay_class = RelaySwitch | RelayLight

datatype event =
    GatewayWrite relay_op "nat option"
  | RequestRefresh
  | Logged log_record

type_synonym 'dev gateway = "relay_op \<Rightarrow> nat option \<Rightarrow> 'dev \<Rightarrow> py_error option \<times> 'dev"

record 'dev plant =
  device :: 'dev
  coordinator_data :: "(string \<Rightarrow> int option) option"
  events :: "event list"

record relay_entity =
  ent_id :: "nat option"
  ent_name :: string

text \<open>\<open>str(n)\<close> of a natural number, and the \<open>{self._id}\<close> of an f-string.\<close>

fun str_nat :: "nat \<Rightarrow> string" where
  "str_nat n =
     (if n < 10 then [''0123456789'' ! n]
      else str_nat (n div 10) @ [''0123456789'' ! (n mod 10)])"

declare str_nat.simps [simp del]

definition str_id :: "nat option \<Rightarrow> string" where
  "str_id i = (case i of None \<Rightarrow> ''None'' | Some n \<Rightarrow> str_nat n)"

text \<open>\<open>is_on\<close> of both classes: \<open>self.coordinator.data[f"OUT{self._id}"] == 1\<close>.\<close>

definition is_on :: "relay_entity \<Rightarrow> 'dev plant \<Rightarrow> py_error + bool" where
  "is_on self w =
     (case coordinator_data w of
        None \<Rightarrow> Inl TypeError
      | Some snapshot \<Rightarrow>
          (case snapshot (''OUT'' @ str_id (ent_id self)) of
             None \<Rightarrow> Inl (KeyError (''OUT'' @ str_id (ent_id self)))
           | Some v \<Rightarrow> Inr (v = 1)))"

text \<open>
  The body shared by the six write methods: the write, then the refresh request, inside a
  \<open>try\<close> that catches the three errors of the library and logs \<open>message\<close>.
\<close>

definition relay_write ::
  "'dev gateway \<Rightarrow> relay_op \<Rightarrow> string \<Rightarrow> relay_entity \<Rightarrow> 'dev plant
     \<Rightarrow> (py_error + unit) \<times> 'dev plant" where
  "relay_write gw op message self w =
     (let w1 = w\<lparr>events := events w @ [GatewayWrite op (ent_id self)]\<rparr> in
      case gw op (ent_id self) (device w) of
        (None, dev) \<Rightarrow>
          (Inr (), w1\<lparr>device := dev, events := events w1 @ [RequestRefresh]\<rparr>)
      | (Some e, dev) \<Rightarrow>
          if e \<in> {Ipx800v3CannotConnectError, Ipx800v3InvalidAuthError, Ipx800v3RequestError}
          then (Inr (),
                w1\<lparr>device := dev,
                   events := events w1 @ [Logged (ERROR, message, [ent_name self])]\<rparr>)
          else (Inl e, w1\<lparr>device := dev\<rparr>))"

definition RelaySwitch_async_turn_on ::
  "'dev gateway \<Rightarrow> relay_entity \<Rightarrow> 'dev plant \<Rightarrow> (py_error + unit) \<times> 'dev plant" where
  "RelaySwitch_async_turn_on gw =
     relay_write gw OutputOn ''An error occurred while turn on IPX800 switch: %s''"

definition RelaySwitch_async_turn_off ::
  "'dev gateway \<Rightarrow> relay_entity \<Rightarrow> 'dev plant \<Rightarrow> (py_error + unit) \<times> 'dev plant" where
  "RelaySwitch_async_turn_off gw =
     relay_write gw OutputOff ''An error occurred while turn off IPX800 switch: %s''"

definition RelaySwitch_async_toggle ::
  "'dev gateway \<Rightarrow> relay_entity \<Rightarrow> 'dev plant \<Rightarrow> (py_error + unit) \<times> 'dev plant" where
  "RelaySwitch_async_toggle gw =
     relay_write gw OutputToggle ''An error occurred while toggle IPX800 switch: %s''"

definition RelayLight_async_turn_on ::
  "'dev gateway \<Rightarrow> relay_entity \<Rightarrow> 'dev plant \<Rightarrow> (py_error + unit) \<times> 'dev plant" where
  "RelayLight_async_turn_on gw =
     relay_write gw OutputOn ''An error occurred while turning on IPX800 light: %s''"

definition RelayLight_async_turn_off ::
  "'dev gateway \<Rightarrow> relay_entity \<Rightarrow> 'dev plant \<Rightarrow> (py_error + unit) \<times> 'dev plant" where
  "RelayLight_async_turn_off gw =
     relay_write gw OutputOff ''An error occurred while turning off IPX800 light: %s''"

definition RelayLight_async_toggle ::
  "'dev gateway \<Rightarrow> relay_entity \<Rightarrow> 'dev plant \<Rightarrow> (py_error + unit) \<times> 'dev plant" where
  "RelayLight_async_toggle gw =
     relay_write gw OutputToggle ''An error occurred while toggle IPX800 light: %s''"

text \<open>The six write methods, by class and operation.\<close>

fun async_write ::
  "'dev gateway \<Rightarrow> relay_class \<Rightarrow> relay_op \<Rightarrow> relay_entity \<Rightarrow> 'dev plant
     \<Rightarrow> (py_error + unit) \<times> 'dev plant" where
  "async_write gw RelaySwitch OutputOn = RelaySwitch_async_turn_on gw"
| "async_write gw RelaySwitch OutputOff = RelaySwitch_async_turn_off gw"
| "async_write gw RelaySwitch OutputToggle = RelaySwitch_async_toggle gw"
| "async_write gw RelayLight OutputOn = RelayLight_async_turn_on gw"
| "async_write gw RelayLight OutputOff = RelayLight_async_turn_off gw"
| "async_write gw RelayLight OutputToggle = RelayLight_async_toggle gw"

definition error_message :: "relay_class \<Rightarrow> relay_op \<Rightarrow> string" where
  "error_message cls op =
     (case (cls, op) of
        (RelaySwitch, OutputOn) \<Rightarrow> ''An error occurred while turn on IPX800 switch: %s''
      | (RelaySwitch, OutputOff) \<Rightarrow> ''An error occurred while turn off IPX800 switch: %s''
      | (RelaySwitch, OutputToggle) \<Rightarrow> ''An error occurred while toggle IPX800 switch: %s''
      | (RelayLight, OutputOn) \<Rightarrow> ''An error occurred while turning on IPX800 light: %s''
      | (RelayLight, OutputOff) \<Rightarrow> ''An error occurred while turning off IPX800 light: %s''
      | (RelayLight, OutputToggle) \<Rightarrow> ''An error occurred while toggle IPX800 light: %s'')"

text \<open>A request with the right credentials, and a state machine with three lamps.\<close>

definition sample_request :: request where
  "sample_request = \<lparr>authorization = Some ''Basic aXB4ODAwOnNlY3JldA==''\<rparr>"

definition sample_hass :: "string hass" where
  "sample_hass =
     \<lparr>states = [''lamp1'' \<mapsto> State ''off'' ''Lamp 1'',
                 ''lamp2'' \<mapsto> State ''on'' ''Lamp 2'',
                 ''lamp3'' \<mapsto> State ''off'' ''Lamp 3''],
      logged = [],
      refresh_requests = 0\<rparr>"

text \<open>
  The two checks of \<open>build_device_list\<close> on one entry, and the error it logs for an entry
  that fails one (the component is checked first).
\<close>

definition supported :: "ChannelConfig \<Rightarrow> bool" where
  "supported d =
     (conf_component d \<in> set CONF_COMPONENT_ALLOWED \<and> conf_type d \<in> set CONF_TYPE_ALLOWED)"

definition skipped :: "ChannelConfig \<Rightarrow> log_record" where
  "skipped d =
     (if conf_component d \<notin> set CONF_COMPONENT_ALLOWED
      then (ERROR, ''Device %s skipped: %s %s not correct or supported'',
            [conf_name d, ''component'', conf_component d])
      else (ERROR, ''Device %s skipped: %s %s not correct or supported'',
            [conf_name d, ''type'', conf_type d]))"

text \<open>Sample entries of a device list, and a gateway entry that configures them.\<close>

definition lamp :: ChannelConfig where
  "lamp = \<lparr>conf_name = ''Lamp'', conf_unique_id = ''lamp'', conf_component = ''light'',
           conf_type = ''relay'', conf_id = Some 1\<rparr>"

definition door :: ChannelConfig where
  "door = \<lparr>conf_name = ''Door'', conf_unique_id = ''door'', conf_component = ''binary_sensor'',
           conf_type = ''digitalin'', conf_id = Some 2\<rparr>"

definition pump :: ChannelConfig where
  "pump = \<lparr>conf_name = ''Pump'', conf_unique_id = ''pump'', conf_component = ''switch'',
           conf_type = ''relay'', conf_id = Some 3\<rparr>"

definition shutter :: ChannelConfig where
  "shutter = \<lparr>conf_name = ''Shutter'', conf_unique_id = ''shutter'', conf_component = ''cover'',
              conf_type = ''relay'', conf_id = Some 4\<rparr>"

definition dimmer :: ChannelConfig where
  "dimmer = \<lparr>conf_name = ''Dimmer'', conf_unique_id = ''dimmer'', conf_component = ''light'',
             conf_type = ''xdimmer'', conf_id = Some 5\<rparr>"

definition probe :: ChannelConfig where
  "probe = \<lparr>conf_name = ''Probe'', conf_unique_id = ''probe'', conf_component = ''sensor'',
            conf_type = ''analogin'', conf_id = Some 1\<rparr>"



text \<open>
  A gateway for the examples: the device is a truth value, whether it can be reached; a write
  to a device out of reach raises \<open>Ipx800v3CannotConnectError\<close>.
\<close>

definition sample_gateway :: "bool gateway" where
  "sample_gateway op i reachable =
     (if reachable then (None, reachable) else (Some Ipx800v3CannotConnectError, reachable))"

definition sample_relay :: relay_entity where
  "sample_relay = \<lparr>ent_id = Some 3, ent_name = ''Pump''\<rparr>"

definition sample_plant :: "bool \<Rightarrow> bool plant" where
  "sample_plant reachable =
     \<lparr>device = reachable, coordinator_data = Some [''OUT3'' \<mapsto> 0], events = []\<rparr>"

section \<open>Facts about the helpers\<close>

lemma split_acc_length: "length (split_acc sep cur s) = Suc (length (filter (\<lambda>c. c = sep) s))"
  by (induction s arbitrary: cur) auto

lemma split_sep_length:
  "length (split_sep sep s) = Suc (length (filter (\<lambda>c. c = sep) s))"
  by (simp add: split_sep_def split_acc_length)

lemma split_sep_two: "(2 \<le> length (split_sep sep s)) = (sep \<in> set s)"
proof -
  have "(filter (\<lambda>c. c = sep) s \<noteq> []) = (sep \<in> set s)"
    by (induction s) auto
  then show ?thesis
    by (simp add: split_sep_length Suc_le_eq numeral_2_eq_2)
qed

lemma py_index_key: "py_index (split_sep CHR ''='' s) 0 = Inr (entity_key s)"
  by (simp add: py_index_def entity_key_def split_sep_length)

lemma py_index_value:
  "py_index (split_sep CHR ''='' s) (Suc 0) =
     (if CHR ''='' \<in> set s then Inr (entity_value s) else Inl IndexError)"
  using split_sep_two [of "CHR ''=''" s]
  by (auto simp: py_index_def entity_value_def)

lemma update_entity_malformed:
  "CHR ''='' \<notin> set entity_data \<Longrightarrow> update_entity entity_data h = (Inl IndexError, h)"
  by (simp add: update_entity_def py_index_key py_index_value)

lemma update_entity_states:
  assumes "CHR ''='' \<in> set entity_data"
  shows "\<exists>h1. update_entity entity_data h = (Inr (), h1) \<and>
           refresh_requests h1 = refresh_requests h \<and>
           states h1 =
             (case states h (lower (entity_key entity_data)) of
                None \<Rightarrow> states h
              | Some old \<Rightarrow>
                  (states h)(lower (entity_key entity_data) \<mapsto>
                     State (if entity_value entity_data \<in> set [''1'', ''on'', ''true'']
                            then ''on'' else ''off'') (attributes old)))"
  using assms
  by (auto simp: update_entity_def py_index_key py_index_value emit_def async_set_def
           states_get_def MAX_LENGTH_STATE_STATE_def Let_def
           split: option.splits)

lemma pushed_Cons:
  "pushed (entity_data # rest) k old =
     (if lower (entity_key entity_data) = k
      then pushed rest k
             (State (if entity_value entity_data \<in> set [''1'', ''on'', ''true'']
                     then ''on'' else ''off'') (attributes old))
      else pushed rest k old)"
  by (auto simp: pushed_def split: list.splits)

lemma apply_entities_states:
  assumes "\<forall>entity_data \<in> set pieces. CHR ''='' \<in> set entity_data"
  shows "fst (apply_entities pieces h) = Inr () \<and>
         refresh_requests (snd (apply_entities pieces h)) = refresh_requests h \<and>
         (\<forall>k. states (snd (apply_entities pieces h)) k = map_option (pushed pieces k) (states h k))"
  using assms
proof (induction pieces arbitrary: h)
  case Nil
  show ?case by (simp add: pushed_def option.map_ident)
next
  case (Cons entity_data rest)
  then have wf: "CHR ''='' \<in> set entity_data" by simp
  from update_entity_states [OF wf, of h] obtain h1 where
    h1: "update_entity entity_data h = (Inr (), h1)"
    and rr: "refresh_requests h1 = refresh_requests h"
    and st: "states h1 =
             (case states h (lower (entity_key entity_data)) of
                None \<Rightarrow> states h
              | Some old \<Rightarrow>
                  (states h)(lower (entity_key entity_data) \<mapsto>
                     State (if entity_value entity_data \<in> set [''1'', ''on'', ''true'']
                            then ''on'' else ''off'') (attributes old)))"
    by blast
  from Cons have ih: "fst (apply_entities rest h1) = Inr () \<and>
         refresh_requests (snd (apply_entities rest h1)) = refresh_requests h1 \<and>
         (\<forall>k. states (snd (apply_entities rest h1)) k = map_option (pushed rest k) (states h1 k))"
    by simp
  have "map_option (pushed rest k) (states h1 k) =
        map_option (pushed (entity_data # rest) k) (states h k)" for k
  proof (cases "lower (entity_key entity_data) = k")
    case True
    then show ?thesis
      by (cases "states h k") (auto simp: st pushed_Cons)
  next
    case False
    then show ?thesis
      by (cases "states h (lower (entity_key entity_data))"; cases "states h k")
         (auto simp: st pushed_Cons)
  qed
  with ih h1 rr show ?case by simp
qed

lemma pushed_idem: "pushed pieces k (pushed pieces k old) = pushed pieces k old"
  by (auto simp: pushed_def split: list.splits)

lemma apply_entities_malformed:
  assumes "\<forall>entity_data \<in> set pre. CHR ''='' \<in> set entity_data"
    and "CHR ''='' \<notin> set bad"
  shows "apply_entities (pre @ bad # post) h = (Inl IndexError, snd (apply_entities pre h))"
  using assms(1)
proof (induction pre arbitrary: h)
  case Nil
  show ?case by (simp add: update_entity_malformed [OF assms(2)])
next
  case (Cons entity_data rest)
  then have wf: "CHR ''='' \<in> set entity_data" by simp
  from update_entity_states [OF wf, of h] obtain h1 where
    h1: "update_entity entity_data h = (Inr (), h1)" by blast
  with Cons show ?case by simp
qed

lemma pushed_explicit:
  "pushed pieces k old =
     (if list_all (\<lambda>entity_data. lower (entity_key entity_data) \<noteq> k) pieces then old
      else State (if entity_value (last (filter (\<lambda>entity_data. lower (entity_key entity_data) = k) pieces))
                      \<in> set [''1'', ''on'', ''true'']
                  then ''on'' else ''off'')
                 (attributes old))"
proof (cases "filter (\<lambda>entity_data. lower (entity_key entity_data) = k) pieces")
  case Nil
  then have "list_all (\<lambda>entity_data. lower (entity_key entity_data) \<noteq> k) pieces"
    by (simp add: filter_empty_conv list_all_iff)
  with Nil show ?thesis by (simp add: pushed_def)
next
  case (Cons hit hits)
  then have "\<not> list_all (\<lambda>entity_data. lower (entity_key entity_data) \<noteq> k) pieces"
    by (metis filter_empty_conv list.distinct(1) list_all_iff)
  with Cons show ?thesis by (simp add: pushed_def)
qed

lemma data_view_authenticated:
  assumes "check_api_auth b64decode request host password = (Inr True, records)"
  shows "IpxRequestDataView_get b64decode host password request data h =
           (case apply_entities (split_sep CHR ''&'' data) (emit records h) of
              (Inl e, h1) \<Rightarrow> (Inl e, h1)
            | (Inr u, h1) \<Rightarrow> (Inr (Response HTTP_OK ''OK''), h1))"
  using assms by (simp add: IpxRequestDataView_get_def)

lemma data_view_well_formed:
  assumes auth: "check_api_auth b64decode request host password = (Inr True, records)"
    and wf: "\<forall>entity_data \<in> set (split_sep CHR ''&'' data). CHR ''='' \<in> set entity_data"
  shows "fst (IpxRequestDataView_get b64decode host password request data h) =
           Inr (Response HTTP_OK ''OK'') \<and>
         (\<forall>k. states (snd (IpxRequestDataView_get b64decode host password request data h)) k =
               map_option (pushed (split_sep CHR ''&'' data) k) (states h k))"
proof -
  from apply_entities_states [OF wf, of "emit records h"]
  have "fst (apply_entities (split_sep CHR ''&'' data) (emit records h)) = Inr ()"
    and "\<forall>k. states (snd (apply_entities (split_sep CHR ''&'' data) (emit records h))) k =
             map_option (pushed (split_sep CHR ''&'' data) k) (states h k)"
    by (simp_all add: emit_def)
  then show ?thesis
    by (cases "apply_entities (split_sep CHR ''&'' data) (emit records h)")
       (simp add: data_view_authenticated [OF auth])
qed

section \<open>Batch push\<close>

text \<open>
  C3, for the batches made of \<open>key=value\<close> pieces. An authenticated batch whose pieces all
  hold an \<open>=\<close> is acknowledged with 200 OK; every piece is applied on its own: an entity the
  state machine knows takes the state \<open>on\<close> when the value of the last piece naming it is
  one of \<open>1\<close>, \<open>on\<close>, \<open>true\<close>, and \<open>off\<close> otherwise, with its attributes kept; an entity
  no piece names keeps its state; a key the state machine does not know creates nothing and
  fails nothing. The same batch applied a second time is acknowledged again and leaves the
  visible states as the first left them.
\<close>

theorem batch_push_pairs_idempotent:
  assumes auth: "check_api_auth b64decode request host password = (Inr True, records)"
    and wf: "\<forall>entity_data \<in> set (split_sep CHR ''&'' data). CHR ''='' \<in> set entity_data"
  shows "fst (IpxRequestDataView_get b64decode host password request data h) =
           Inr (Response HTTP_OK ''OK'') \<and>
         (\<forall>k. states (snd (IpxRequestDataView_get b64decode host password request data h)) k =
            (case states h k of
               None \<Rightarrow> None
             | Some old \<Rightarrow>
                 Some (if list_all (\<lambda>entity_data. lower (entity_key entity_data) \<noteq> k)
                            (split_sep CHR ''&'' data)
                       then old
                       else State
                         (if entity_value
                               (last (filter (\<lambda>entity_data. lower (entity_key entity_data) = k)
                                        (split_sep CHR ''&'' data)))
                             \<in> set [''1'', ''on'', ''true'']
                          then ''on'' else ''off'')
                         (attributes old)))) \<and>
         fst (IpxRequestDataView_get b64decode host password request data
                (snd (IpxRequestDataView_get b64decode host password request data h))) =
           Inr (Response HTTP_OK ''OK'') \<and>
         states (snd (IpxRequestDataView_get b64decode host password request data
                (snd (IpxRequestDataView_get b64decode host password request data h)))) =
           states (snd (IpxRequestDataView_get b64decode host password request data h))"
proof -
  let ?run = "IpxRequestDataView_get b64decode host password request data"
  let ?pieces = "split_sep CHR ''&'' data"
  note once = data_view_well_formed [OF auth wf, of h]
  note twice = data_view_well_formed [OF auth wf, of "snd (?run h)"]
  have a: "states (snd (?run h)) k =
            (case states h k of
               None \<Rightarrow> None
             | Some old \<Rightarrow>
                 Some (if list_all (\<lambda>entity_data. lower (entity_key entity_data) \<noteq> k) ?pieces
                       then old
                       else State
                         (if entity_value
                               (last (filter (\<lambda>entity_data. lower (entity_key entity_data) = k) ?pieces))
                             \<in> set [''1'', ''on'', ''true'']
                          then ''on'' else ''off'')
                         (attributes old)))" for k
    using once by (cases "states h k") (simp_all add: pushed_explicit)
  have b: "states (snd (?run (snd (?run h)))) k = states (snd (?run h)) k" for k
    using once twice by (cases "states h k") (simp_all add: pushed_idem)
  from b have "states (snd (?run (snd (?run h)))) = states (snd (?run h))"
    by (rule ext)
  with once twice a show ?thesis by blast
qed


lemma sample_auth:
  "check_api_auth sample_decoder sample_request ''192.168.1.20'' ''secret'' = (Inr True, [])"
  by code_simp

theorem batch_push_pairs_idempotent_witness:
  "fst (IpxRequestDataView_get sample_decoder ''192.168.1.20'' ''secret'' sample_request
          ''lamp1=on&lamp2=0&lamp3=true'' sample_hass) = Inr (Response HTTP_OK ''OK'') \<and>
   states (snd (IpxRequestDataView_get sample_decoder ''192.168.1.20'' ''secret'' sample_request
          ''lamp1=on&lamp2=0&lamp3=true'' sample_hass)) ''lamp1'' = Some (State ''on'' ''Lamp 1'') \<and>
   states (snd (IpxRequestDataView_get sample_decoder ''192.168.1.20'' ''secret'' sample_request
          ''lamp1=on&lamp2=0&lamp3=true'' sample_hass)) ''lamp2'' = Some (State ''off'' ''Lamp 2'') \<and>
   states (snd (IpxRequestDataView_get sample_decoder ''192.168.1.20'' ''secret'' sample_request
          ''lamp1=on&lamp2=0&lamp3=true'' sample_hass)) ''lamp3'' = Some (State ''on'' ''Lamp 3'') \<and>
   states (snd (IpxRequestDataView_get sample_decoder ''192.168.1.20'' ''secret'' sample_request
          ''lamp1=on&lamp2=0&lamp3=true''
          (snd (IpxRequestDataView_get sample_decoder ''192.168.1.20'' ''secret'' sample_request
             ''lamp1=on&lamp2=0&lamp3=true'' sample_hass)))) =
   states (snd (IpxRequestDataView_get sample_decoder ''192.168.1.20'' ''secret'' sample_request
          ''lamp1=on&lamp2=0&lamp3=true'' sample_hass))"
proof -
  have pieces: "split_sep CHR ''&'' ''lamp1=on&lamp2=0&lamp3=true'' =
                  [''lamp1=on'', ''lamp2=0'', ''lamp3=true'']"
    by code_simp
  have wf: "\<forall>entity_data \<in> set (split_sep CHR ''&'' ''lamp1=on&lamp2=0&lamp3=true'').
              CHR ''='' \<in> set entity_data"
    by (simp add: pieces)
  note run = batch_push_pairs_idempotent [OF sample_auth wf, of sample_hass]
  have keys: "lower (entity_key ''lamp1=on'') = ''lamp1''"
    "lower (entity_key ''lamp2=0'') = ''lamp2''"
    "lower (entity_key ''lamp3=true'') = ''lamp3''"
    by code_simp+
  have vals: "entity_value ''lamp1=on'' = ''on''" "entity_value ''lamp2=0'' = ''0''"
    "entity_value ''lamp3=true'' = ''true''"
    by code_simp+
  have s1: "states sample_hass ''lamp1'' = Some (State ''off'' ''Lamp 1'')"
    and s2: "states sample_hass ''lamp2'' = Some (State ''on'' ''Lamp 2'')"
    and s3: "states sample_hass ''lamp3'' = Some (State ''off'' ''Lamp 3'')"
    by (simp_all add: sample_hass_def)
  from run show ?thesis
    by (simp add: pieces keys vals s1 s2 s3)
qed

text \<open>
  C3, the counterexample: in the authenticated batch \<open>lamp2&lamp3=true\<close> the first piece
  holds no \<open>=\<close>; the batch is not acknowledged and the pair \<open>lamp3=true\<close>, of a known
  entity and a value that means \<open>on\<close>, is not applied.
\<close>

theorem batch_pair_after_bad_piece_not_applied:
  "fst (IpxRequestDataView_get sample_decoder ''192.168.1.20'' ''secret'' sample_request
          ''lamp2&lamp3=true'' sample_hass) = Inl IndexError \<and>
   entity_value ''lamp3=true'' \<in> set [''1'', ''on'', ''true''] \<and>
   states (snd (IpxRequestDataView_get sample_decoder ''192.168.1.20'' ''secret'' sample_request
          ''lamp2&lamp3=true'' sample_hass)) ''lamp3'' = Some (State ''off'' ''Lamp 3'')"
proof -
  have cut: "split_sep CHR ''&'' ''lamp2&lamp3=true'' = [] @ ''lamp2'' # [''lamp3=true'']"
    by code_simp
  have bad: "CHR ''='' \<notin> set ''lamp2''"
    by simp
  have run: "IpxRequestDataView_get sample_decoder ''192.168.1.20'' ''secret'' sample_request
               ''lamp2&lamp3=true'' sample_hass = (Inl IndexError, emit [] sample_hass)"
    using apply_entities_malformed [of "[]" "''lamp2''" "[''lamp3=true'']" "emit [] sample_hass"] bad
    by (simp add: data_view_authenticated [OF sample_auth] cut)
  have val: "entity_value ''lamp3=true'' = ''true''"
    by code_simp
  show ?thesis
    unfolding run by (simp add: val emit_def sample_hass_def)
qed

text \<open>
  C10. An authenticated batch with a piece that holds no \<open>=\<close> raises IndexError at that
  piece, where the value is indexed: no response is returned, and the pieces before it have
  been applied (each known entity they name has the state its last such piece gives).
\<close>

theorem malformed_batch_raises_after_prefix:
  assumes auth: "check_api_auth b64decode request host password = (Inr True, records)"
    and cut: "split_sep CHR ''&'' data = pre @ bad # post"
    and wf: "\<forall>entity_data \<in> set pre. CHR ''='' \<in> set entity_data"
    and bad: "CHR ''='' \<notin> set bad"
  shows "fst (IpxRequestDataView_get b64decode host password request data h) = Inl IndexError \<and>
         (\<forall>k. states (snd (IpxRequestDataView_get b64decode host password request data h)) k =
            (case states h k of
               None \<Rightarrow> None
             | Some old \<Rightarrow>
                 Some (if list_all (\<lambda>entity_data. lower (entity_key entity_data) \<noteq> k) pre
                       then old
                       else State
                         (if entity_value
                               (last (filter (\<lambda>entity_data. lower (entity_key entity_data) = k) pre))
                             \<in> set [''1'', ''on'', ''true'']
                          then ''on'' else ''off'')
                         (attributes old))))"
proof -
  let ?h0 = "emit records h"
  have run: "IpxRequestDataView_get b64decode host password request data h =
               (Inl IndexError, snd (apply_entities pre ?h0))"
    by (simp add: data_view_authenticated [OF auth] cut apply_entities_malformed [OF wf bad])
  from apply_entities_states [OF wf, of ?h0]
  have "states (snd (apply_entities pre ?h0)) k = map_option (pushed pre k) (states h k)" for k
    by (simp add: emit_def)
  then have "states (snd (apply_entities pre ?h0)) k =
            (case states h k of
               None \<Rightarrow> None
             | Some old \<Rightarrow>
                 Some (if list_all (\<lambda>entity_data. lower (entity_key entity_data) \<noteq> k) pre
                       then old
                       else State
                         (if entity_value
                               (last (filter (\<lambda>entity_data. lower (entity_key entity_data) = k) pre))
                             \<in> set [''1'', ''on'', ''true'']
                          then ''on'' else ''off'')
                         (attributes old)))" for k
    by (cases "states h k") (simp_all add: pushed_explicit)
  with run show ?thesis by simp
qed

theorem malformed_batch_raises_after_prefix_witness:
  "fst (IpxRequestDataView_get sample_decoder ''192.168.1.20'' ''secret'' sample_request
          ''lamp1=on&lamp2&lamp3=true'' sample_hass) = Inl IndexError \<and>
   states (snd (IpxRequestDataView_get sample_decoder ''192.168.1.20'' ''secret'' sample_request
          ''lamp1=on&lamp2&lamp3=true'' sample_hass)) ''lamp1'' = Some (State ''on'' ''Lamp 1'') \<and>
   states (snd (IpxRequestDataView_get sample_decoder ''192.168.1.20'' ''secret'' sample_request
          ''lamp1=on&lamp2&lamp3=true'' sample_hass)) ''lamp3'' = Some (State ''off'' ''Lamp 3'')"
proof -
  have cut: "split_sep CHR ''&'' ''lamp1=on&lamp2&lamp3=true'' =
               [''lamp1=on''] @ ''lamp2'' # [''lamp3=true'']"
    by code_simp
  have wf: "\<forall>entity_data \<in> set [''lamp1=on'']. CHR ''='' \<in> set entity_data"
    by simp
  have bad: "CHR ''='' \<notin> set ''lamp2''"
    by simp
  note run = malformed_batch_raises_after_prefix [OF sample_auth cut wf bad, of sample_hass]
  have keys: "lower (entity_key ''lamp1=on'') = ''lamp1''"
    by code_simp
  have vals: "entity_value ''lamp1=on'' = ''on''"
    by code_simp
  have s1: "states sample_hass ''lamp1'' = Some (State ''off'' ''Lamp 1'')"
    and s3: "states sample_hass ''lamp3'' = Some (State ''off'' ''Lamp 3'')"
    by (simp_all add: sample_hass_def)
  from run show ?thesis
    by (simp add: keys vals s1 s3)
qed

text \<open>
  The visible states after any authenticated batch are those its pieces before the first one
  without an \<open>=\<close> give; so a batch applied twice leaves the states of one application,
  whether it is acknowledged or raises.
\<close>

lemma data_view_states:
  assumes auth: "check_api_auth b64decode request host password = (Inr True, records)"
  shows "states (snd (IpxRequestDataView_get b64decode host password request d h)) k =
           map_option
             (pushed (takeWhile (\<lambda>entity_data. CHR ''='' \<in> set entity_data)
                        (split_sep CHR ''&'' d)) k)
             (states h k)"
proof -
  let ?wf = "\<lambda>entity_data. CHR ''='' \<in> set entity_data"
  let ?pieces = "split_sep CHR ''&'' d"
  let ?pre = "takeWhile ?wf ?pieces"
  have wf: "\<forall>entity_data \<in> set ?pre. CHR ''='' \<in> set entity_data"
    by (auto dest: set_takeWhileD)
  have applied: "states (snd (apply_entities ?pre (emit records h))) k =
                   map_option (pushed ?pre k) (states h k)"
    using apply_entities_states [OF wf, of "emit records h"] by (simp add: emit_def)
  show ?thesis
  proof (cases "dropWhile ?wf ?pieces")
    case Nil
    then have eq: "?pre = ?pieces"
      by (metis append_Nil2 takeWhile_dropWhile_id)
    have "states (snd (apply_entities ?pieces (emit records h))) k =
            map_option (pushed ?pieces k) (states h k)"
      using applied unfolding eq .
    then show ?thesis
      unfolding eq
      by (cases "apply_entities ?pieces (emit records h)")
         (auto simp: data_view_authenticated [OF auth] split: sum.splits)
  next
    case (Cons bad post)
    then have cut: "?pieces = ?pre @ bad # post"
      by (metis takeWhile_dropWhile_id)
    from Cons have bad: "CHR ''='' \<notin> set bad"
      by (metis hd_dropWhile list.distinct(1) list.sel(1))
    have "apply_entities ?pieces (emit records h) =
            (Inl IndexError, snd (apply_entities ?pre (emit records h)))"
      using apply_entities_malformed [OF wf bad, of post "emit records h"] cut by simp
    with applied show ?thesis
      by (simp add: data_view_authenticated [OF auth])
  qed
qed

lemma batch_push_idempotent_always:
  assumes auth: "check_api_auth b64decode request host password = (Inr True, records)"
  shows "states (snd (IpxRequestDataView_get b64decode host password request d
                  (snd (IpxRequestDataView_get b64decode host password request d h)))) =
         states (snd (IpxRequestDataView_get b64decode host password request d h))"
proof
  fix k
  show "states (snd (IpxRequestDataView_get b64decode host password request d
                  (snd (IpxRequestDataView_get b64decode host password request d h)))) k =
        states (snd (IpxRequestDataView_get b64decode host password request d h)) k"
    by (cases "states h k") (simp_all add: data_view_states [OF auth] pushed_idem)
qed

section \<open>Single push\<close>

lemma request_view_authenticated:
  assumes "check_api_auth b64decode request host password = (Inr True, records)"
  shows "IpxRequestView_get b64decode host password request entity_id new_state h =
          (let h1 = emit (records @ [(DEBUG, ''Update %s to state %s'', [entity_id, new_state])]) h
           in case states_get h1 entity_id of
                Some old_state \<Rightarrow>
                  (case async_set entity_id new_state (attributes old_state) h1 of
                     Inl e \<Rightarrow> (Inl e, h1)
                   | Inr h2 \<Rightarrow> (Inr (Some (Response HTTP_OK ''OK'')), h2))
              | None \<Rightarrow>
                  (Inr None,
                   emit [(WARNING, ''Entity not found for state updating: %s'', [entity_id])] h1))"
  using assms by (simp add: IpxRequestView_get_def)

text \<open>
  C1, as the code and the host have it. For an authenticated single push of a state of at
  most 255 characters: when the state machine holds an entity under the folded key, the
  entity takes the pushed state verbatim and keeps its attributes, nothing else changes, and
  the answer is 200 OK; when it holds none, the miss is logged, nothing changes, the method
  returns nothing and the host's wrapper answers 200 with an empty body.
\<close>

theorem single_push_sets_state_or_answers_200:
  assumes auth: "check_api_auth b64decode request host password = (Inr True, records)"
    and short: "length new_state \<le> MAX_LENGTH_STATE_STATE"
  shows "(\<forall>old. states h (lower entity_id) = Some old \<longrightarrow>
            request_handler
              (fst (IpxRequestView_get b64decode host password request entity_id new_state h)) =
              Inr (Response HTTP_OK ''OK'') \<and>
            states (snd (IpxRequestView_get b64decode host password request entity_id new_state h)) =
              (states h)(lower entity_id \<mapsto> State new_state (attributes old))) \<and>
         (states h (lower entity_id) = None \<longrightarrow>
            fst (IpxRequestView_get b64decode host password request entity_id new_state h) =
              Inr None \<and>
            request_handler
              (fst (IpxRequestView_get b64decode host password request entity_id new_state h)) =
              Inr (Response HTTP_OK []) \<and>
            states (snd (IpxRequestView_get b64decode host password request entity_id new_state h)) =
              states h \<and>
            logged (snd (IpxRequestView_get b64decode host password request entity_id new_state h)) =
              logged h @ records @
                [(DEBUG, ''Update %s to state %s'', [entity_id, new_state]),
                 (WARNING, ''Entity not found for state updating: %s'', [entity_id])])"
  using short
  by (simp add: request_view_authenticated [OF auth] emit_def states_get_def async_set_def
        request_handler_def)

theorem single_push_sets_state_or_answers_200_witness:
  "request_handler
     (fst (IpxRequestView_get sample_decoder ''192.168.1.20'' ''secret'' sample_request
             ''Lamp1'' ''on'' sample_hass)) = Inr (Response HTTP_OK ''OK'') \<and>
   states (snd (IpxRequestView_get sample_decoder ''192.168.1.20'' ''secret'' sample_request
             ''Lamp1'' ''on'' sample_hass)) ''lamp1'' = Some (State ''on'' ''Lamp 1'') \<and>
   fst (IpxRequestView_get sample_decoder ''192.168.1.20'' ''secret'' sample_request
          ''lamp9'' ''on'' sample_hass) = Inr None \<and>
   request_handler
     (fst (IpxRequestView_get sample_decoder ''192.168.1.20'' ''secret'' sample_request
             ''lamp9'' ''on'' sample_hass)) = Inr (Response HTTP_OK []) \<and>
   states (snd (IpxRequestView_get sample_decoder ''192.168.1.20'' ''secret'' sample_request
             ''lamp9'' ''on'' sample_hass)) = states sample_hass"
proof -
  have short: "length ''on'' \<le> MAX_LENGTH_STATE_STATE"
    by (simp add: MAX_LENGTH_STATE_STATE_def)
  have fold: "lower ''Lamp1'' = ''lamp1''" "lower ''lamp9'' = ''lamp9''"
    by code_simp+
  have hit: "states sample_hass (lower ''Lamp1'') = Some (State ''off'' ''Lamp 1'')"
    by (simp add: fold sample_hass_def)
  have miss: "states sample_hass (lower ''lamp9'') = None"
    by (simp add: fold sample_hass_def)
  from single_push_sets_state_or_answers_200 [OF sample_auth short, of sample_hass "''Lamp1''"] hit
  have a: "request_handler
     (fst (IpxRequestView_get sample_decoder ''192.168.1.20'' ''secret'' sample_request
             ''Lamp1'' ''on'' sample_hass)) = Inr (Response HTTP_OK ''OK'')"
    and b: "states (snd (IpxRequestView_get sample_decoder ''192.168.1.20'' ''secret'' sample_request
             ''Lamp1'' ''on'' sample_hass)) =
              (states sample_hass)(lower ''Lamp1'' \<mapsto> State ''on'' (attributes (State ''off'' ''Lamp 1'')))"
    by blast+
  from single_push_sets_state_or_answers_200 [OF sample_auth short, of sample_hass "''lamp9''"] miss
  have c: "fst (IpxRequestView_get sample_decoder ''192.168.1.20'' ''secret'' sample_request
          ''lamp9'' ''on'' sample_hass) = Inr None"
    and d: "request_handler
     (fst (IpxRequestView_get sample_decoder ''192.168.1.20'' ''secret'' sample_request
             ''lamp9'' ''on'' sample_hass)) = Inr (Response HTTP_OK [])"
    and e: "states (snd (IpxRequestView_get sample_decoder ''192.168.1.20'' ''secret'' sample_request
             ''lamp9'' ''on'' sample_hass)) = states sample_hass"
    by blast+
  have b': "states (snd (IpxRequestView_get sample_decoder ''192.168.1.20'' ''secret'' sample_request
             ''Lamp1'' ''on'' sample_hass)) ''lamp1'' = Some (State ''on'' ''Lamp 1'')"
    unfolding b by (simp add: fold)
  from a b' c d e show ?thesis
    by blast
qed

text \<open>
  C1, the counterexample: an authenticated push of a state of 256 characters to a known
  entity is refused by the state machine; the method raises, no 200 is answered and the
  entity keeps its state.
\<close>

theorem single_push_long_state_refused:
  "fst (IpxRequestView_get sample_decoder ''192.168.1.20'' ''secret'' sample_request
          ''lamp1'' (replicate 256 CHR ''x'') sample_hass) = Inl InvalidStateError \<and>
   states (snd (IpxRequestView_get sample_decoder ''192.168.1.20'' ''secret'' sample_request
          ''lamp1'' (replicate 256 CHR ''x'') sample_hass)) ''lamp1'' =
     Some (State ''off'' ''Lamp 1'')"
proof -
  have fold: "lower ''lamp1'' = ''lamp1''"
    by code_simp
  show ?thesis
    by (simp add: request_view_authenticated [OF sample_auth] emit_def states_get_def
          async_set_def MAX_LENGTH_STATE_STATE_def fold sample_hass_def)
qed

lemma batch_push_miss_acknowledged:
  "fst (IpxRequestDataView_get sample_decoder ''192.168.1.20'' ''secret'' sample_request
          ''lamp9=on'' sample_hass) = Inr (Response HTTP_OK ''OK'')"
  by code_simp

section \<open>Authentication of a push\<close>

lemma check_api_auth_missing:
  "authorization request = None \<Longrightarrow>
     check_api_auth b64decode request host password =
       (Inr False, [(WARNING, ''API call no authentication provided'', [])])"
  by (simp add: check_api_auth_def)

lemma check_api_auth_malformed:
  assumes "authorization request = Some header_auth"
    and "length (split_sep CHR '' '' (strip header_auth)) \<noteq> 2 \<or>
         lower (strip (split_sep CHR '' '' (strip header_auth) ! 0)) \<noteq> ''basic''"
  shows "check_api_auth b64decode request host password =
           (Inr False, [(WARNING, ''Malformed Authorization header'', [])])"
  using assms by (auto simp: check_api_auth_def Let_def)

lemma split_once_colon:
  assumes "CHR '':'' \<notin> set u"
  shows "split_once CHR '':'' (u @ CHR '':'' # p) = [u, p]"
proof -
  from assms have d: "dropWhile (\<lambda>c. c \<noteq> CHR '':'') (u @ CHR '':'' # p) = CHR '':'' # p"
    by (induction u) auto
  from assms have t: "takeWhile (\<lambda>c. c \<noteq> CHR '':'') (u @ CHR '':'' # p) = u"
    by (induction u) auto
  show ?thesis
    unfolding split_once_def d t by simp
qed

lemma split_once_no_colon:
  assumes "CHR '':'' \<notin> set s"
  shows "split_once CHR '':'' s = [s]"
proof -
  from assms have d: "dropWhile (\<lambda>c. c \<noteq> CHR '':'') s = []"
    by (induction s) auto
  show ?thesis
    unfolding split_once_def d by simp
qed

lemma check_api_auth_wrong_credentials:
  assumes "authorization request = Some header_auth"
    and "split_sep CHR '' '' (strip header_auth) = [scheme, token]"
    and "lower (strip scheme) = ''basic''"
    and "b64decode token = Inr (u @ CHR '':'' # p)"
    and "CHR '':'' \<notin> set u"
    and "u \<noteq> PUSH_USERNAME \<or> p \<noteq> password"
  shows "check_api_auth b64decode request host password =
           (Inr False, [(WARNING, ''API call authentication invalid'', [])])"
  using assms by (auto simp: check_api_auth_def split_once_colon)

lemma check_api_auth_decoder_raises:
  assumes "authorization request = Some header_auth"
    and "split_sep CHR '' '' (strip header_auth) = [scheme, token]"
    and "lower (strip scheme) = ''basic''"
    and "b64decode token = Inl e"
  shows "check_api_auth b64decode request host password = (Inl e, [])"
  using assms by (simp add: check_api_auth_def)

lemma rejected_push_answers_401:
  assumes "check_api_auth b64decode request host password = (Inr False, records)"
  shows "IpxRequestView_get b64decode host password request entity_id new_state h =
           (Inr (Some (Response HTTP_UNAUTHORIZED ''Unauthorized'')), emit records h)"
    and "IpxRequestDataView_get b64decode host password request d h =
           (Inr (Response HTTP_UNAUTHORIZED ''Unauthorized''), emit records h)"
    and "IpxRequestRefreshView_get b64decode host password request d h =
           (Inr (Response HTTP_UNAUTHORIZED ''Unauthorized''), emit records h)"
    and "states (emit records h) = states h"
    and "refresh_requests (emit records h) = refresh_requests h"
  using assms
  by (simp_all add: IpxRequestView_get_def IpxRequestDataView_get_def
        IpxRequestRefreshView_get_def emit_def)

text \<open>
  C2, the header that is not rejected. An Authorization header of two tokens with the scheme
  Basic whose token decodes to a text without a colon makes \<open>check_api_auth\<close> raise
  ValueError (the pair of the username and the password cannot be unpacked): each of the
  three views raises instead of answering 401. No state changes and nothing is logged.
\<close>

theorem push_auth_raises_without_colon:
  assumes hdr: "authorization request = Some header_auth"
    and cut: "split_sep CHR '' '' (strip header_auth) = [scheme, token]"
    and scheme: "lower (strip scheme) = ''basic''"
    and decoded: "b64decode token = Inr decoded"
    and no_colon: "CHR '':'' \<notin> set decoded"
  shows "check_api_auth b64decode request host password = (Inl ValueError, []) \<and>
         IpxRequestView_get b64decode host password request entity_id new_state h =
           (Inl ValueError, h) \<and>
         IpxRequestDataView_get b64decode host password request d h = (Inl ValueError, h) \<and>
         IpxRequestRefreshView_get b64decode host password request d h = (Inl ValueError, h)"
proof -
  have "check_api_auth b64decode request host password = (Inl ValueError, [])"
    using hdr cut scheme decoded
    by (simp add: check_api_auth_def split_once_no_colon [OF no_colon])
  then show ?thesis
    by (simp add: IpxRequestView_get_def IpxRequestDataView_get_def
          IpxRequestRefreshView_get_def emit_def)
qed

theorem push_auth_raises_without_colon_witness:
  "check_api_auth sample_decoder \<lparr>authorization = Some ''Basic aXB4ODAw''\<rparr>
     ''192.168.1.20'' ''secret'' = (Inl ValueError, []) \<and>
   fst (IpxRequestView_get sample_decoder ''192.168.1.20'' ''secret''
     \<lparr>authorization = Some ''Basic aXB4ODAw''\<rparr> ''lamp1'' ''on'' sample_hass) = Inl ValueError \<and>
   fst (IpxRequestDataView_get sample_decoder ''192.168.1.20'' ''secret''
     \<lparr>authorization = Some ''Basic aXB4ODAw''\<rparr> ''lamp1=on'' sample_hass) = Inl ValueError \<and>
   fst (IpxRequestRefreshView_get sample_decoder ''192.168.1.20'' ''secret''
     \<lparr>authorization = Some ''Basic aXB4ODAw''\<rparr> ''lamp1=on'' sample_hass) = Inl ValueError"
proof -
  have hdr: "authorization \<lparr>authorization = Some ''Basic aXB4ODAw''\<rparr> = Some ''Basic aXB4ODAw''"
    by simp
  have cut: "split_sep CHR '' '' (strip ''Basic aXB4ODAw'') = [''Basic'', ''aXB4ODAw'']"
    by code_simp
  have scheme: "lower (strip ''Basic'') = ''basic''"
    by code_simp
  have decoded: "sample_decoder ''aXB4ODAw'' = Inr ''ipx800''"
    by code_simp
  have no_colon: "CHR '':'' \<notin> set ''ipx800''"
    by simp
  from push_auth_raises_without_colon
         [where b64decode = sample_decoder and host = "''192.168.1.20''"
            and password = "''secret''" and h = sample_hass,
          OF hdr cut scheme decoded no_colon]
  show ?thesis by simp
qed

section \<open>Device catalogue\<close>

lemma build_devices_fst:
  "fst (build_devices devices_config devices lg) = devices @ filter supported devices_config"
  by (induction devices_config arbitrary: devices lg) (auto simp: supported_def Let_def)

lemma build_devices_errors:
  "filter (\<lambda>r. fst r = ERROR) (snd (build_devices devices_config devices lg)) =
     filter (\<lambda>r. fst r = ERROR) lg @ map skipped (filter (\<lambda>d. \<not> supported d) devices_config)"
  by (induction devices_config arbitrary: devices lg) (auto simp: supported_def skipped_def Let_def)

lemma map_of_load_platforms:
  "map_of (load_platforms entities) platform =
     (if platform \<in> set PLATFORMS
      then Some (filter (\<lambda>d. conf_component d = platform) entities) else None)"
  by (simp add: load_platforms_def PLATFORMS_def filter_entities_by_platform_def)

lemma platforms_allowed: "set PLATFORMS = set CONF_COMPONENT_ALLOWED"
  by (auto simp: PLATFORMS_def CONF_COMPONENT_ALLOWED_def)

lemma build_device_list_checks:
  "fst (build_device_list devices_config) = filter supported devices_config"
  "filter (\<lambda>r. fst r = ERROR) (snd (build_device_list devices_config)) =
     map skipped (filter (\<lambda>d. \<not> supported d) devices_config)"
  by (simp_all add: build_device_list_def build_devices_fst build_devices_errors)


lemma sample_supported:
  "supported lamp" "supported door" "supported pump"
  "\<not> supported shutter" "\<not> supported dimmer" "\<not> supported probe"
  by (simp_all add: supported_def lamp_def door_def pump_def shutter_def dimmer_def probe_def
        CONF_COMPONENT_ALLOWED_def CONF_TYPE_ALLOWED_def TYPE_RELAY_def TYPE_DIGITALIN_def)

lemma sample_components:
  "conf_component lamp = ''light''" "conf_component door = ''binary_sensor''"
  "conf_component pump = ''switch''" "conf_component shutter = ''cover''"
  "conf_component dimmer = ''light''" "conf_component probe = ''sensor''"
  by (simp_all add: lamp_def door_def pump_def shutter_def dimmer_def probe_def)

section \<open>Setup\<close>















section \<open>Partition and registration\<close>




text \<open>
  C4, the channel that is not supported. A configured entry of the component \<open>sensor\<close>
  (the component of \<open>AnalogInputSensor\<close>), whatever its type, is dropped by
  \<open>build_device_list\<close>; \<open>sensor\<close> is no platform, so setup stores no list for it, the
  entry is in no stored list, and the sensor platform's setup would raise KeyError on the
  stored lists.
\<close>

theorem analog_channel_not_registered:
  assumes "conf_component d = ''sensor''"
  shows "d \<notin> set (fst (build_device_list devices_config)) \<and>
         ''sensor'' \<notin> set PLATFORMS \<and>
         map_of (load_platforms devices_config) ''sensor'' = None \<and>
         (\<forall>platform entities.
            map_of (load_platforms devices_config) platform = Some entities \<longrightarrow> d \<notin> set entities) \<and>
         sensor_async_setup_entry TYPE_ANALOGIN (load_platforms devices_config) =
           Inl (KeyError ''sensor'')"
proof -
  have p: "''sensor'' \<notin> set PLATFORMS"
    by (simp add: PLATFORMS_def)
  from assms have "\<not> supported d"
    by (simp add: supported_def CONF_COMPONENT_ALLOWED_def)
  then have a: "d \<notin> set (fst (build_device_list devices_config))"
    by (simp add: build_device_list_def build_devices_fst)
  have b: "map_of (load_platforms devices_config) ''sensor'' = None"
    using p by (simp add: map_of_load_platforms)
  have c: "d \<notin> set entities"
    if "map_of (load_platforms devices_config) platform = Some entities" for platform entities
    using that assms p by (auto simp: map_of_load_platforms split: if_splits)
  from a p b c show ?thesis
    by (simp add: sensor_async_setup_entry_def platform_devices_def)
qed

theorem analog_channel_not_registered_witness:
  "conf_component probe = ''sensor'' \<and>
   probe \<notin> set (fst (build_device_list [lamp, probe])) \<and>
   map_of (load_platforms [lamp, probe]) ''sensor'' = None \<and>
   sensor_async_setup_entry ''analogin'' (load_platforms [lamp, probe]) = Inl (KeyError ''sensor'')"
  using analog_channel_not_registered [of probe "[lamp, probe]" "''analogin''"]
  by (simp add: sample_components)

section \<open>Poll interval\<close>




section \<open>Relay writes\<close>

lemma relay_write_caught:
  assumes "gw op (ent_id self) (device w) = (Some e, dev)"
    and "e \<in> {Ipx800v3CannotConnectError, Ipx800v3InvalidAuthError, Ipx800v3RequestError}"
  shows "relay_write gw op message self w =
           (Inr (),
            w\<lparr>device := dev,
              events := events w @
                [GatewayWrite op (ent_id self), Logged (ERROR, message, [ent_name self])]\<rparr>)"
  using assms by (auto simp: relay_write_def Let_def)

lemma async_write_relay_write:
  "async_write gw cls op = relay_write gw op (error_message cls op)"
  by (cases cls; cases op)
     (simp_all add: error_message_def RelaySwitch_async_turn_on_def RelaySwitch_async_turn_off_def
        RelaySwitch_async_toggle_def RelayLight_async_turn_on_def RelayLight_async_turn_off_def
        RelayLight_async_toggle_def)

lemma is_on_frame:
  "is_on self (w\<lparr>device := dev, events := evs\<rparr>) = is_on self w"
  by (simp add: is_on_def)

lemma relay_write_returned:
  assumes "gw op (ent_id self) (device w) = (None, dev)"
  shows "relay_write gw op message self w =
           (Inr (),
            w\<lparr>device := dev,
              events := events w @ [GatewayWrite op (ent_id self), RequestRefresh]\<rparr>)"
  using assms by (simp add: relay_write_def Let_def)

lemma relay_write_propagated:
  assumes "gw op (ent_id self) (device w) = (Some e, dev)"
    and "e \<notin> {Ipx800v3CannotConnectError, Ipx800v3InvalidAuthError, Ipx800v3RequestError}"
  shows "relay_write gw op message self w =
           (Inl e, w\<lparr>device := dev, events := events w @ [GatewayWrite op (ent_id self)]\<rparr>)"
  using assms by (simp add: relay_write_def Let_def)

lemma sample_is_on: "is_on sample_relay (sample_plant reachable) = Inr False"
proof -
  have "str_id (Some 3) = ''3''"
    by code_simp
  then show ?thesis
    by (simp add: is_on_def sample_relay_def sample_plant_def)
qed

text \<open>
  C6. When the write of any of the six methods raises one of the three errors of the library,
  the method returns normally, the write has been issued once and is followed by the logged
  error only (no second write, no refresh request), and the snapshot the entity reads, hence
  \<open>is_on\<close>, is what it was.
\<close>

theorem gateway_error_caught_and_logged:
  assumes raised: "gw op (ent_id self) (device w) = (Some e, dev)"
    and caught: "e \<in> {Ipx800v3CannotConnectError, Ipx800v3InvalidAuthError, Ipx800v3RequestError}"
  shows "fst (async_write gw cls op self w) = Inr () \<and>
         events (snd (async_write gw cls op self w)) =
           events w @ [GatewayWrite op (ent_id self),
                       Logged (ERROR, error_message cls op, [ent_name self])] \<and>
         coordinator_data (snd (async_write gw cls op self w)) = coordinator_data w \<and>
         is_on self (snd (async_write gw cls op self w)) = is_on self w"
  using relay_write_caught [of gw op self w e dev "error_message cls op", OF raised caught]
  by (simp add: async_write_relay_write is_on_frame)

theorem gateway_error_caught_and_logged_witness:
  "fst (RelaySwitch_async_turn_on sample_gateway sample_relay (sample_plant False)) = Inr () \<and>
   events (snd (RelaySwitch_async_turn_on sample_gateway sample_relay (sample_plant False))) =
     [GatewayWrite OutputOn (Some 3),
      Logged (ERROR, ''An error occurred while turn on IPX800 switch: %s'', [''Pump''])] \<and>
   is_on sample_relay (snd (RelaySwitch_async_turn_on sample_gateway sample_relay (sample_plant False))) =
     Inr False"
proof -
  have raised: "sample_gateway OutputOn (ent_id sample_relay) (device (sample_plant False)) =
                  (Some Ipx800v3CannotConnectError, False)"
    by (simp add: sample_gateway_def sample_plant_def)
  have caught: "Ipx800v3CannotConnectError \<in>
                  {Ipx800v3CannotConnectError, Ipx800v3InvalidAuthError, Ipx800v3RequestError}"
    by simp
  have ev: "events (sample_plant False) = []" "ent_id sample_relay = Some 3"
    "ent_name sample_relay = ''Pump''"
    by (simp_all add: sample_plant_def sample_relay_def)
  from gateway_error_caught_and_logged
         [of sample_gateway OutputOn sample_relay "sample_plant False" _ _ RelaySwitch,
          OF raised caught]
  show ?thesis
    by (simp add: ev sample_is_on error_message_def)
qed

text \<open>
  C7, as the code has it. Each of the six methods first issues the write; the refresh request
  follows the write exactly when the write returns: after one of the three errors the error is
  logged instead, any other exception leaves the method. Neither changes the snapshot the
  entity reads, so \<open>is_on\<close> is what it was until the coordinator replaces the snapshot.
\<close>

theorem write_precedes_refresh_on_success:
  "events (snd (async_write gw cls op self w)) =
     events w @ GatewayWrite op (ent_id self) #
       (case fst (gw op (ent_id self) (device w)) of
          None \<Rightarrow> [RequestRefresh]
        | Some e \<Rightarrow>
            if e \<in> {Ipx800v3CannotConnectError, Ipx800v3InvalidAuthError, Ipx800v3RequestError}
            then [Logged (ERROR, error_message cls op, [ent_name self])] else []) \<and>
   fst (async_write gw cls op self w) =
     (case fst (gw op (ent_id self) (device w)) of
          None \<Rightarrow> Inr ()
        | Some e \<Rightarrow>
            if e \<in> {Ipx800v3CannotConnectError, Ipx800v3InvalidAuthError, Ipx800v3RequestError}
            then Inr () else Inl e) \<and>
   coordinator_data (snd (async_write gw cls op self w)) = coordinator_data w \<and>
   is_on self (snd (async_write gw cls op self w)) = is_on self w"
proof (cases "gw op (ent_id self) (device w)")
  case (Pair r dev)
  show ?thesis
  proof (cases r)
    case None
    with Pair relay_write_returned [of gw op self w dev "error_message cls op"] show ?thesis
      by (simp add: async_write_relay_write is_on_frame)
  next
    case (Some e)
    show ?thesis
    proof (cases "e \<in> {Ipx800v3CannotConnectError, Ipx800v3InvalidAuthError, Ipx800v3RequestError}")
      case True
      with Pair Some relay_write_caught [of gw op self w e dev "error_message cls op"]
      show ?thesis
        by (simp add: async_write_relay_write is_on_frame)
    next
      case False
      with Pair Some relay_write_propagated [of gw op self w e dev "error_message cls op"]
      show ?thesis
        by (simp add: async_write_relay_write is_on_frame)
    qed
  qed
qed

theorem write_precedes_refresh_on_success_witness:
  "fst (RelayLight_async_toggle sample_gateway sample_relay (sample_plant True)) = Inr () \<and>
   events (snd (RelayLight_async_toggle sample_gateway sample_relay (sample_plant True))) =
     [GatewayWrite OutputToggle (Some 3), RequestRefresh] \<and>
   is_on sample_relay (snd (RelayLight_async_toggle sample_gateway sample_relay (sample_plant True))) =
     Inr False"
proof -
  have ok: "sample_gateway OutputToggle (ent_id sample_relay) (device (sample_plant True)) =
              (None, True)"
    by (simp add: sample_gateway_def sample_plant_def)
  have ev: "events (sample_plant True) = []" "ent_id sample_relay = Some 3"
    by (simp_all add: sample_plant_def sample_relay_def)
  from write_precedes_refresh_on_success [of sample_gateway RelayLight OutputToggle sample_relay
      "sample_plant True"] ok
  show ?thesis
    by (simp add: ev sample_is_on)
qed

text \<open>
  C7, the counterexample: the device is out of reach, the write of \<open>async_turn_on\<close> raises,
  and no refresh is requested.
\<close>

theorem failed_write_requests_no_refresh:
  "fst (RelaySwitch_async_turn_on sample_gateway sample_relay (sample_plant False)) = Inr () \<and>
   events (snd (RelaySwitch_async_turn_on sample_gateway sample_relay (sample_plant False))) =
     [GatewayWrite OutputOn (Some 3),
      Logged (ERROR, ''An error occurred while turn on IPX800 switch: %s'', [''Pump''])] \<and>
   RequestRefresh \<notin>
     set (events (snd (RelaySwitch_async_turn_on sample_gateway sample_relay (sample_plant False))))"
  by (simp add: RelaySwitch_async_turn_on_def relay_write_def sample_gateway_def sample_plant_def
        sample_relay_def)

end
